theory Spec2Isabelle
  imports Complex_Main "HOL-Library.Log_Nat"
begin

section \<open>Monte Carlo analysis of diagnostic accuracy (amin\_codes.py)\<close>

text \<open>
  The embedding follows the class \<open>CDSSStatisticalAnalysis\<close>. Python floats are modelled
  twice: as exact reals (the arithmetic the formulas denote), and, for the accuracy formula,
  as IEEE binary64 values with the rounding of every operation written out.
\<close>

subsection \<open>The accuracy formula, in exact arithmetic\<close>

definition base_accuracy :: real where
  "base_accuracy = 0.90"

text \<open>The penalty term \<open>min(response_time/10, 0.1)\<close> of the formula.\<close>

definition response_penalty :: "real \<Rightarrow> real" where
  "response_penalty response_time = min (response_time / 10) 0.1"

text \<open>The local variable \<open>accuracy\<close> of one trial (a fraction, not yet a percentage).\<close>

definition accuracy_of :: "real \<Rightarrow> int \<Rightarrow> int \<Rightarrow> real \<Rightarrow> real" where
  "accuracy_of data_completeness symptom_clarity workflow_variation response_time =
     base_accuracy * data_completeness *
       (of_int symptom_clarity / 5) *
       (1 - of_int workflow_variation * 0.01) *
       (1 - response_penalty response_time)"

text \<open>The value appended to \<open>results['accuracy']\<close>: \<open>accuracy * 100\<close>.\<close>

definition accuracy_percent :: "real \<Rightarrow> int \<Rightarrow> int \<Rightarrow> real \<Rightarrow> real" where
  "accuracy_percent data_completeness symptom_clarity workflow_variation response_time =
     accuracy_of data_completeness symptom_clarity workflow_variation response_time * 100"

subsection \<open>The accuracy formula, in IEEE binary64 arithmetic\<close>

text \<open>
  A finite double is a real of the form \<open>m * 2^e\<close> with \<open>|m| < 2^53\<close>. Every
  arithmetic operation of the interpreter returns the exact result rounded to the nearest
  double, ties to the even significand. \<open>ilog2 x\<close> is the binary exponent of a positive
  \<open>x\<close>: \<open>2^(ilog2 x) \<le> x < 2^(ilog2 x + 1)\<close>.
\<close>

definition ilog2 :: "real \<Rightarrow> int" where
  "ilog2 x = (if 1 \<le> x then bitlen \<lfloor>x\<rfloor> - 1 else - bitlen (\<lceil>1 / x\<rceil> - 1))"

text \<open>Rounding to the nearest multiple of \<open>2^e\<close>, ties to even.\<close>

definition round_grid :: "int \<Rightarrow> real \<Rightarrow> real" where
  "round_grid e x =
     (let s = x / 2 powi e; n = \<lfloor>s\<rfloor>; r = s - of_int n
      in of_int (if r < 1 / 2 then n else if 1 / 2 < r then n + 1
                 else if even n then n else n + 1) * 2 powi e)"

text \<open>
  The spacing of the doubles around \<open>x\<close>: 53 significant bits, and the subnormal spacing
  \<open>2^-1074\<close> below the smallest normal number. Overflow to infinity is not represented:
  no operation of the accuracy formula can overflow.
\<close>

definition b64_exponent :: "real \<Rightarrow> int" where
  "b64_exponent x = max (ilog2 \<bar>x\<bar> - 52) (- 1074)"

definition b64 :: "real \<Rightarrow> real" where
  "b64 x = (if x = 0 then 0 else round_grid (b64_exponent x) x)"

definition fmul :: "real \<Rightarrow> real \<Rightarrow> real" where
  "fmul a b = b64 (a * b)"

definition fdiv :: "real \<Rightarrow> real \<Rightarrow> real" where
  "fdiv a b = b64 (a / b)"

definition fsub :: "real \<Rightarrow> real \<Rightarrow> real" where
  "fsub a b = b64 (a - b)"

text \<open>
  The same expression as \<open>accuracy_of\<close>, in the interpreter's order of evaluation (the
  product associates to the left), each literal the double nearest to it.
\<close>

definition accuracy_of_b64 :: "real \<Rightarrow> int \<Rightarrow> int \<Rightarrow> real \<Rightarrow> real" where
  "accuracy_of_b64 data_completeness symptom_clarity workflow_variation response_time =
     fmul (fmul (fmul (fmul (b64 0.90) data_completeness)
                      (fdiv (of_int symptom_clarity) 5))
                (fsub 1 (fmul (of_int workflow_variation) (b64 0.01))))
          (fsub 1 (min (fdiv response_time 10) (b64 0.1)))"

definition accuracy_percent_b64 :: "real \<Rightarrow> int \<Rightarrow> int \<Rightarrow> real \<Rightarrow> real" where
  "accuracy_percent_b64 data_completeness symptom_clarity workflow_variation response_time =
     fmul (accuracy_of_b64 data_completeness symptom_clarity workflow_variation response_time) 100"

subsection \<open>The analysis object and the simulation\<close>

text \<open>The dictionary \<open>self.results\<close>: five lists, one entry per trial.\<close>

record results =
  accuracy :: "real list"
  response_time :: "real list"
  data_completeness :: "real list"
  symptom_clarity :: "int list"
  workflow_variation :: "int list"

record analysis =
  n_iterations :: nat
  results :: results

definition init :: analysis where
  "init = \<lparr>n_iterations = 10000,
           results = \<lparr>accuracy = [], response_time = [], data_completeness = [],
                      symptom_clarity = [], workflow_variation = []\<rparr>\<rparr>"

text \<open>
  The module \<open>np.random\<close> draws from a generator global to the process. Its state is
  threaded explicitly: every function takes the arguments of the call and the state of the
  generator, and returns the value drawn and the next state. The library is a parameter of
  the model.
\<close>

record 'g np_random =
  uniform :: "real \<Rightarrow> real \<Rightarrow> 'g \<Rightarrow> real \<times> 'g"
  randint :: "int \<Rightarrow> int \<Rightarrow> 'g \<Rightarrow> int \<times> 'g"
  choice :: "int list \<Rightarrow> 'g \<Rightarrow> int \<times> 'g"
  exponential :: "real \<Rightarrow> 'g \<Rightarrow> real \<times> 'g"

text \<open>The body of the loop: four draws in the order of the source, then five appends.\<close>

definition trial :: "'g np_random \<Rightarrow> 'g \<Rightarrow> results \<Rightarrow> 'g \<times> results" where
  "trial np g0 r =
     (let (dc, g1) = uniform np 0.6 1.0 g0;
          (sc, g2) = randint np 1 6 g1;
          (wv, g3) = choice np [0..7] g2;
          (rt, g4) = exponential np 2.0 g3;
          acc = accuracy_of dc sc wv rt
      in (g4, \<lparr>accuracy = accuracy r @ [acc * 100],
                response_time = response_time r @ [rt],
                data_completeness = data_completeness r @ [dc],
                symptom_clarity = symptom_clarity r @ [sc],
                workflow_variation = workflow_variation r @ [wv]\<rparr>))"

fun run_trials :: "'g np_random \<Rightarrow> nat \<Rightarrow> 'g \<Rightarrow> results \<Rightarrow> 'g \<times> results" where
  "run_trials np 0 g r = (g, r)"
| "run_trials np (Suc n) g r = (case trial np g r of (g', r') \<Rightarrow> run_trials np n g' r')"

text \<open>
  \<open>simulate_diagnostic_accuracy(self)\<close>: no argument but the object; the generator is the
  hidden global. It returns \<open>self.results\<close>, which is the \<open>results\<close> field of the state
  returned here.
\<close>

definition simulate_diagnostic_accuracy ::
  "'g np_random \<Rightarrow> 'g \<Rightarrow> analysis \<Rightarrow> 'g \<times> analysis" where
  "simulate_diagnostic_accuracy np g self =
     (case run_trials np (n_iterations self) g (results self) of
        (g', r) \<Rightarrow> (g', self\<lparr>results := r\<rparr>))"

subsection \<open>Values of numpy arithmetic\<close>

text \<open>
  A numpy float is a number, an infinity or NaN: dividing by zero does not raise, it gives
  an infinity or NaN (and a warning). Signed zeros are not distinguished: every zero
  denominator below is a sum of squares or of absolute values, a positive zero.
\<close>

datatype npfloat = Num real | PInf | NInf | NaN

fun nf_add :: "npfloat \<Rightarrow> npfloat \<Rightarrow> npfloat" where
  "nf_add (Num a) (Num b) = Num (a + b)"
| "nf_add NaN _ = NaN"
| "nf_add _ NaN = NaN"
| "nf_add PInf NInf = NaN"
| "nf_add NInf PInf = NaN"
| "nf_add PInf _ = PInf"
| "nf_add _ PInf = PInf"
| "nf_add NInf _ = NInf"
| "nf_add _ NInf = NInf"

fun nf_scale :: "npfloat \<Rightarrow> real \<Rightarrow> npfloat" where
  "nf_scale (Num a) c = Num (a * c)"
| "nf_scale NaN c = NaN"
| "nf_scale PInf c = (if c = 0 then NaN else if 0 < c then PInf else NInf)"
| "nf_scale NInf c = (if c = 0 then NaN else if 0 < c then NInf else PInf)"

fun nf_mul :: "npfloat \<Rightarrow> npfloat \<Rightarrow> npfloat" where
  "nf_mul a (Num c) = nf_scale a c"
| "nf_mul (Num c) b = nf_scale b c"
| "nf_mul NaN _ = NaN"
| "nf_mul _ NaN = NaN"
| "nf_mul PInf PInf = PInf"
| "nf_mul NInf NInf = PInf"
| "nf_mul PInf NInf = NInf"
| "nf_mul NInf PInf = NInf"

fun nf_div :: "npfloat \<Rightarrow> npfloat \<Rightarrow> npfloat" where
  "nf_div (Num a) (Num b) =
     (if b \<noteq> 0 then Num (a / b) else if a = 0 then NaN else if 0 < a then PInf else NInf)"
| "nf_div NaN _ = NaN"
| "nf_div _ NaN = NaN"
| "nf_div (Num a) _ = Num 0"
| "nf_div PInf (Num b) = (if 0 \<le> b then PInf else NInf)"
| "nf_div NInf (Num b) = (if 0 \<le> b then NInf else PInf)"
| "nf_div _ _ = NaN"

fun nf_abs :: "npfloat \<Rightarrow> npfloat" where
  "nf_abs (Num a) = Num \<bar>a\<bar>"
| "nf_abs NaN = NaN"
| "nf_abs _ = PInf"

fun nf_sqrt :: "npfloat \<Rightarrow> npfloat" where
  "nf_sqrt (Num a) = (if 0 \<le> a then Num (sqrt a) else NaN)"
| "nf_sqrt PInf = PInf"
| "nf_sqrt _ = NaN"

text \<open>\<open>np.clip(x, lo, hi)\<close>: NaN stays NaN.\<close>

fun nf_clip :: "real \<Rightarrow> real \<Rightarrow> npfloat \<Rightarrow> npfloat" where
  "nf_clip lo hi (Num a) = Num (min (max a lo) hi)"
| "nf_clip lo hi PInf = Num hi"
| "nf_clip lo hi NInf = Num lo"
| "nf_clip lo hi NaN = NaN"

text \<open>The errors: the two exceptions numpy raises on these paths, and the two error kinds
  the specification names, which no function below returns.\<close>

datatype error = IndexError | ValueError | EmptyResultSet | DegenerateSensitivity

subsection \<open>The library functions the statistics use\<close>

text \<open>\<open>np.mean\<close>: the sum divided by the count; NaN (0/0) for an empty array.\<close>

definition np_mean :: "real list \<Rightarrow> npfloat" where
  "np_mean xs = nf_div (Num (sum_list xs)) (Num (real (length xs)))"

text \<open>The deviations from the mean; an empty list has none.\<close>

definition deviations :: "real list \<Rightarrow> real list" where
  "deviations xs =
     (if xs = [] then [] else map (\<lambda>x. x - sum_list xs / real (length xs)) xs)"

text \<open>
  \<open>np.var(a, ddof)\<close>: the sum of the squared deviations divided by
  \<open>max(n - ddof, 0)\<close>; \<open>np.std\<close> is its square root. Both default to \<open>ddof = 0\<close>.
\<close>

definition np_var :: "nat \<Rightarrow> real list \<Rightarrow> npfloat" where
  "np_var ddof xs =
     nf_div (Num (\<Sum>d\<leftarrow>deviations xs. d * d))
            (Num (real_of_int (max (int (length xs) - int ddof) 0)))"

definition np_std :: "nat \<Rightarrow> real list \<Rightarrow> npfloat" where
  "np_std ddof xs = nf_sqrt (np_var ddof xs)"

text \<open>\<open>scipy.stats.sem(a)\<close>: \<open>np.std(a, ddof=1) / np.sqrt(n)\<close>; its default is
  \<open>ddof = 1\<close>.\<close>

definition stats_sem :: "real list \<Rightarrow> npfloat" where
  "stats_sem xs = nf_div (np_std 1 xs) (nf_sqrt (Num (real (length xs))))"

text \<open>
  The 0.975 quantile of the standard normal distribution, as the double that
  \<open>scipy.special.ndtri(0.975)\<close> returns, to its sixteen printed digits.
\<close>

definition norm_ppf_975 :: real where
  "norm_ppf_975 = 1959963984540054 / 10 ^ 15"

text \<open>
  \<open>stats.norm.interval(0.95, loc, scale)\<close>: the quantiles at 0.025 and 0.975,
  \<open>ppf(q) * scale + loc\<close>. The distribution checks its arguments: unless
  \<open>scale > 0\<close> and \<open>loc\<close> is a number, both ends are NaN.
\<close>

fun nf_positive :: "npfloat \<Rightarrow> bool" where
  "nf_positive (Num a) = (0 < a)"
| "nf_positive PInf = True"
| "nf_positive _ = False"

definition norm_interval_95 :: "npfloat \<Rightarrow> npfloat \<Rightarrow> npfloat \<times> npfloat" where
  "norm_interval_95 loc scale =
     (if nf_positive scale \<and> loc \<noteq> NaN
      then (nf_add (nf_scale scale (- norm_ppf_975)) loc,
            nf_add (nf_scale scale norm_ppf_975) loc)
      else (NaN, NaN))"

text \<open>Python indexing of a list: a negative index counts from the end.\<close>

definition py_index :: "'a list \<Rightarrow> int \<Rightarrow> 'a" where
  "py_index xs i = xs ! nat (if i < 0 then int (length xs) + i else i)"

text \<open>
  \<open>np.percentile(a, q)\<close>, method \<open>linear\<close>: the array is sorted, the virtual index is
  \<open>(n - 1) * q / 100\<close>, and the result interpolates between the entries before and after
  it (\<open>_lerp\<close>, with its two branches). An index at or beyond the last entry is replaced
  by \<open>-1\<close>, one below the first by \<open>0\<close>. An empty array raises \<open>IndexError\<close>.
\<close>

definition lerp :: "real \<Rightarrow> real \<Rightarrow> real \<Rightarrow> real" where
  "lerp a b t = (if 1 / 2 \<le> t then b - (b - a) * (1 - t) else a + (b - a) * t)"

definition np_percentile :: "real list \<Rightarrow> real \<Rightarrow> error + npfloat" where
  "np_percentile xs q =
     (if xs = [] then Inl IndexError
      else
        let arr = sort xs;
            n = int (length xs);
            virtual_index = (of_int n - 1) * (q / 100);
            previous_index = (if of_int n - 1 \<le> virtual_index then - 1
                              else if virtual_index < 0 then 0 else \<lfloor>virtual_index\<rfloor>);
            next_index = (if of_int n - 1 \<le> virtual_index then - 1
                          else if virtual_index < 0 then 0 else \<lfloor>virtual_index\<rfloor> + 1);
            gamma = virtual_index - of_int previous_index
        in Inr (Num (lerp (py_index arr previous_index) (py_index arr next_index) gamma)))"

text \<open>
  \<open>np.cov\<close> of two rows, one entry of the matrix: the sum of the products of the
  deviations, times \<open>1 / fact\<close>, where \<open>fact = n - 1\<close>, replaced by zero when it is not
  positive.
\<close>

definition cov_entry :: "real list \<Rightarrow> real list \<Rightarrow> npfloat" where
  "cov_entry xs ys =
     (let fact = (if int (length xs) - 1 \<le> 0 then 0 else real (length xs) - 1)
      in nf_mul (Num (\<Sum>(d, e)\<leftarrow>zip (deviations xs) (deviations ys). d * e))
                (nf_div (Num 1) (Num fact)))"

text \<open>
  \<open>np.corrcoef(x, y)[0,1]\<close>: the covariance divided by the two standard deviations, one
  after the other, then clipped to \<open>[-1, 1]\<close>. Rows of different lengths cannot be stacked:
  \<open>ValueError\<close>.
\<close>

definition np_corrcoef :: "real list \<Rightarrow> real list \<Rightarrow> error + npfloat" where
  "np_corrcoef xs ys =
     (if length xs \<noteq> length ys then Inl ValueError
      else Inr (nf_clip (- 1) 1
                  (nf_div (nf_div (cov_entry xs ys) (nf_sqrt (cov_entry xs xs)))
                          (nf_sqrt (cov_entry ys ys)))))"

subsection \<open>Statistics and sensitivity\<close>

record statistics =
  mean_accuracy :: npfloat
  std_accuracy :: npfloat
  ci_95 :: "npfloat \<times> npfloat"
  percentile_99_response :: npfloat

text \<open>The entries of the dictionary are evaluated in order; only the last can raise.\<close>

definition calculate_statistics :: "analysis \<Rightarrow> error + statistics" where
  "calculate_statistics self =
     (let accuracy_array = accuracy (results self);
          m = np_mean accuracy_array;
          s = np_std 0 accuracy_array;
          ci = norm_interval_95 (np_mean accuracy_array) (stats_sem accuracy_array)
      in case np_percentile (response_time (results self)) 99 of
           Inl e \<Rightarrow> Inl e
         | Inr p \<Rightarrow> Inr \<lparr>mean_accuracy = m, std_accuracy = s, ci_95 = ci,
                          percentile_99_response = p\<rparr>)"

text \<open>
  The dictionaries \<open>correlations\<close> and \<open>sensitivity\<close> keep the order of insertion:
  association lists. \<open>sum\<close> starts from 0 and adds from the left.
\<close>

definition normalize_percent :: "(string \<times> npfloat) list \<Rightarrow> (string \<times> npfloat) list" where
  "normalize_percent correlations =
     (let total = foldl nf_add (Num 0) (map (\<lambda>(key, val). nf_abs val) correlations)
      in map (\<lambda>(key, val). (key, nf_mul (nf_div (nf_abs val) total) (Num 100))) correlations)"

definition sensitivity_analysis :: "analysis \<Rightarrow> error + (string \<times> npfloat) list" where
  "sensitivity_analysis self =
     (let r = results self in
      case np_corrcoef (data_completeness r) (accuracy r) of Inl e \<Rightarrow> Inl e | Inr c1 \<Rightarrow>
      case np_corrcoef (map of_int (symptom_clarity r)) (accuracy r) of Inl e \<Rightarrow> Inl e | Inr c2 \<Rightarrow>
      case np_corrcoef (map of_int (workflow_variation r)) (accuracy r) of Inl e \<Rightarrow> Inl e | Inr c3 \<Rightarrow>
      case np_corrcoef (response_time r) (accuracy r) of Inl e \<Rightarrow> Inl e | Inr c4 \<Rightarrow>
        Inr (normalize_percent
              [(''data_completeness'', c1), (''symptom_clarity'', c2),
               (''workflow_variation'', c3), (''response_time'', c4)]))"

subsection \<open>Trials as a list of draws, repeated calls, and a concrete generator\<close>

text \<open>The values one call draws from the generator, trial by trial, in the order of the
  loop: (data_completeness, symptom_clarity, workflow_variation, response_time).\<close>

fun draws :: "'g np_random \<Rightarrow> nat \<Rightarrow> 'g \<Rightarrow> (real \<times> int \<times> int \<times> real) list" where
  "draws np 0 g = []"
| "draws np (Suc n) g0 =
     (let (dc, g1) = uniform np 0.6 1.0 g0;
          (sc, g2) = randint np 1 6 g1;
          (wv, g3) = choice np [0..7] g2;
          (rt, g4) = exponential np 2.0 g3
      in (dc, sc, wv, rt) # draws np n g4)"

text \<open>The five lists after the trials of the given draws have been appended.\<close>

definition append_trials :: "results \<Rightarrow> (real \<times> int \<times> int \<times> real) list \<Rightarrow> results" where
  "append_trials r ds =
     \<lparr>accuracy = accuracy r @ map (\<lambda>(dc, sc, wv, rt). accuracy_percent dc sc wv rt) ds,
      response_time = response_time r @ map (\<lambda>(dc, sc, wv, rt). rt) ds,
      data_completeness = data_completeness r @ map (\<lambda>(dc, sc, wv, rt). dc) ds,
      symptom_clarity = symptom_clarity r @ map (\<lambda>(dc, sc, wv, rt). sc) ds,
      workflow_variation = workflow_variation r @ map (\<lambda>(dc, sc, wv, rt). wv) ds\<rparr>"

definition same_lengths :: "results \<Rightarrow> bool" where
  "same_lengths r \<longleftrightarrow>
     length (response_time r) = length (accuracy r) \<and>
     length (data_completeness r) = length (accuracy r) \<and>
     length (symptom_clarity r) = length (accuracy r) \<and>
     length (workflow_variation r) = length (accuracy r)"

fun simulate_calls :: "'g np_random \<Rightarrow> nat \<Rightarrow> 'g \<Rightarrow> analysis \<Rightarrow> 'g \<times> analysis" where
  "simulate_calls np 0 g self = (g, self)"
| "simulate_calls np (Suc m) g self =
     (case simulate_diagnostic_accuracy np g self of
        (g', self') \<Rightarrow> simulate_calls np m g' self')"

definition counter_random :: "nat np_random" where
  "counter_random =
     \<lparr>uniform = (\<lambda>lo hi g. (lo + (hi - lo) * real (g mod 4) / 4, Suc g)),
      randint = (\<lambda>lo hi g. (lo + int g mod (hi - lo), Suc g)),
      choice = (\<lambda>xs g. (xs ! (g mod length xs), Suc g)),
      exponential = (\<lambda>scale g. (scale * real (g mod 3), Suc g))\<rparr>"

text \<open>The analysis object with two trials per call instead of ten thousand.\<close>

definition two_trials :: analysis where
  "two_trials = init\<lparr>n_iterations := 2\<rparr>"






text \<open>An analysis object, its lists set by hand, in which no factor is constant and every
  factor has covariance zero with the accuracy.\<close>

definition uncorrelated :: analysis where
  "uncorrelated =
     \<lparr>n_iterations = 4,
      results = \<lparr>accuracy = [50, 50, 60, 60], response_time = [1, 2, 1, 2],
                 data_completeness = [6 / 10, 8 / 10, 6 / 10, 8 / 10],
                 symptom_clarity = [1, 2, 1, 2], workflow_variation = [0, 1, 0, 1]\<rparr>\<rparr>"

section \<open>Properties\<close>

subsection \<open>The loop as a list of draws\<close>

lemma length_draws [simp]: "length (draws np n g) = n"
  by (induction n arbitrary: g) (simp_all add: Let_def split: prod.splits)

lemma append_trials_Nil [simp]: "append_trials r [] = r"
  by (simp add: append_trials_def)

lemma append_trials_Cons:
  "append_trials r ((dc, sc, wv, rt) # ds) =
     append_trials
       \<lparr>accuracy = accuracy r @ [accuracy_of dc sc wv rt * 100],
        response_time = response_time r @ [rt],
        data_completeness = data_completeness r @ [dc],
        symptom_clarity = symptom_clarity r @ [sc],
        workflow_variation = workflow_variation r @ [wv]\<rparr> ds"
  by (simp add: append_trials_def accuracy_percent_def)

lemma run_trials_draws:
  "snd (run_trials np n g r) = append_trials r (draws np n g)"
proof (induction n arbitrary: g r)
  case 0
  show ?case by simp
next
  case (Suc n)
  show ?case
    by (simp add: trial_def Let_def Suc.IH append_trials_Cons split: prod.splits)
qed

lemma simulate_results:
  "results (snd (simulate_diagnostic_accuracy np g self)) =
     append_trials (results self) (draws np (n_iterations self) g)"
  using run_trials_draws[of np "n_iterations self" g "results self"]
  by (cases "run_trials np (n_iterations self) g (results self)")
     (simp add: simulate_diagnostic_accuracy_def)

lemma simulate_n_iterations:
  "n_iterations (snd (simulate_diagnostic_accuracy np g self)) = n_iterations self"
  by (simp add: simulate_diagnostic_accuracy_def split: prod.splits)

lemma simulate_calls_n_iterations:
  "n_iterations (snd (simulate_calls np m g self)) = n_iterations self"
proof (induction m arbitrary: g self)
  case 0
  show ?case by simp
next
  case (Suc m)
  show ?case
    using Suc.IH simulate_n_iterations[of np g self]
    by (simp split: prod.splits) (metis snd_conv)
qed

lemma simulate_calls_length:
  "length (accuracy (results (snd (simulate_calls np m g self)))) =
     length (accuracy (results self)) + m * n_iterations self \<and>
   length (response_time (results (snd (simulate_calls np m g self)))) =
     length (response_time (results self)) + m * n_iterations self \<and>
   length (data_completeness (results (snd (simulate_calls np m g self)))) =
     length (data_completeness (results self)) + m * n_iterations self \<and>
   length (symptom_clarity (results (snd (simulate_calls np m g self)))) =
     length (symptom_clarity (results self)) + m * n_iterations self \<and>
   length (workflow_variation (results (snd (simulate_calls np m g self)))) =
     length (workflow_variation (results self)) + m * n_iterations self"
proof (induction m arbitrary: g self)
  case 0
  show ?case by simp
next
  case (Suc m)
  obtain g' self' where s: "simulate_diagnostic_accuracy np g self = (g', self')"
    by (cases "simulate_diagnostic_accuracy np g self")
  have r: "results self' = append_trials (results self) (draws np (n_iterations self) g)"
    using simulate_results[of np g self] s by simp
  have n: "n_iterations self' = n_iterations self"
    using simulate_n_iterations[of np g self] s by simp
  show ?case
    using Suc.IH[of g' self'] by (simp add: s r n append_trials_def)
qed

lemma same_lengths_append_trials:
  "same_lengths r \<Longrightarrow> same_lengths (append_trials r ds)"
  by (simp add: same_lengths_def append_trials_def)

lemma first_data_completeness:
  assumes "0 < n_iterations self" and "data_completeness (results self) = []"
  shows "hd (data_completeness (results (snd (simulate_diagnostic_accuracy np g self)))) =
           fst (uniform np 0.6 1.0 g)"
proof -
  obtain k where k: "n_iterations self = Suc k"
    using assms(1) by (cases "n_iterations self") auto
  show ?thesis
    by (simp add: simulate_results k assms(2) append_trials_def Let_def split: prod.splits)
qed

subsection \<open>The accuracy formula at given inputs\<close>

text \<open>
  C5, counterexample. At \<open>data_completeness = 0.8\<close>, \<open>symptom_clarity = 5\<close>,
  \<open>workflow_variation = 0\<close>, \<open>response_time = 0\<close> the double the code appends is not 72.0:
  the product starts with \<open>0.90 * 0.8\<close>, which rounds to \<open>0.7200000000000001\<close>, and the
  factor 100 comes last.
\<close>

theorem accuracy_72_b64_counterexample:
  "accuracy_percent_b64 (b64 (8 / 10)) 5 0 0 \<noteq> 72"
  by code_simp

text \<open>
  C5, as amended. At these inputs the formula is 72 in exact arithmetic; the double that
  the code computes, in its order of evaluation, is \<open>72 + 2^-46\<close> (printed
  \<open>72.00000000000001\<close>), one unit in the last place above 72.0.
\<close>

theorem accuracy_72_exact_and_b64:
  "accuracy_percent (8 / 10) 5 0 0 = 72 \<and>
   accuracy_percent_b64 (b64 (8 / 10)) 5 0 0 = 72 + 1 / 2 ^ 46"
proof
  show "accuracy_percent (8 / 10) 5 0 0 = 72"
    by (simp add: accuracy_percent_def accuracy_of_def base_accuracy_def response_penalty_def)
  show "accuracy_percent_b64 (b64 (8 / 10)) 5 0 0 = 72 + 1 / 2 ^ 46"
    by code_simp
qed

text \<open>
  C6, counterexample. At \<open>data_completeness = 0.6\<close>, \<open>symptom_clarity = 1\<close>,
  \<open>workflow_variation = 7\<close>, \<open>response_time = 20\<close> the accuracy is not 9.0468.
\<close>

theorem accuracy_penalty_cap_counterexample:
  "accuracy_percent (6 / 10) 1 7 20 \<noteq> 90468 / 10000"
  by (simp add: accuracy_percent_def accuracy_of_def base_accuracy_def response_penalty_def)

text \<open>
  C6, as amended. At these inputs the penalty is clamped to 0.1 and the accuracy is
  \<open>90 * 0.6 * 0.2 * 0.93 * 0.9\<close>, which is 9.0396; the double computed is the double
  nearest to 9.0396.
\<close>

theorem accuracy_penalty_cap:
  "response_penalty 20 = 1 / 10 \<and>
   accuracy_percent (6 / 10) 1 7 20 = 90 * (6 / 10) * (2 / 10) * (93 / 100) * (9 / 10) \<and>
   accuracy_percent (6 / 10) 1 7 20 = 90396 / 10000 \<and>
   accuracy_percent_b64 (b64 (6 / 10)) 1 7 20 = b64 (90396 / 10000)"
proof (intro conjI)
  show "response_penalty 20 = 1 / 10"
    by (simp add: response_penalty_def)
  show "accuracy_percent (6 / 10) 1 7 20 = 90 * (6 / 10) * (2 / 10) * (93 / 100) * (9 / 10)"
    by (simp add: accuracy_percent_def accuracy_of_def base_accuracy_def response_penalty_def)
  show "accuracy_percent (6 / 10) 1 7 20 = 90396 / 10000"
    by (simp add: accuracy_percent_def accuracy_of_def base_accuracy_def response_penalty_def)
  show "accuracy_percent_b64 (b64 (6 / 10)) 1 7 20 = b64 (90396 / 10000)"
    by code_simp
qed

subsection \<open>The range of the accuracy\<close>

lemma accuracy_percent_product:
  "accuracy_percent dc sc wv rt =
     90 * dc * (of_int sc / 5) * (1 - of_int wv / 100) * (1 - min (rt / 10) (1 / 10))"
  by (simp add: accuracy_percent_def accuracy_of_def base_accuracy_def response_penalty_def)

lemma accuracy_range_aux:
  fixes a b c d :: real
  assumes a: "54 \<le> a" "a \<le> 90" and b: "1 / 5 \<le> b" "b \<le> 1"
    and c: "93 / 100 \<le> c" "c \<le> 1" and d: "9 / 10 \<le> d" "d \<le> 1"
  shows "9 \<le> a * b * c * d \<and> a * b * c * d \<le> 90"
proof
  have ab: "54 * (1 / 5) \<le> a * b" using a b by (intro mult_mono) auto
  have ab0: "0 \<le> a * b" using a b by simp
  have abc: "54 * (1 / 5) * (93 / 100) \<le> a * b * c"
    using mult_mono[OF ab c(1)] ab0 by simp
  have abc0: "0 \<le> a * b * c" using ab0 c by simp
  have "54 * (1 / 5) * (93 / 100) * (9 / 10) \<le> a * b * c * d"
    using mult_mono[OF abc d(1)] abc0 by simp
  then show "9 \<le> a * b * c * d" by simp
  have ab': "a * b \<le> 90 * 1" using a b by (intro mult_mono) auto
  have abc': "a * b * c \<le> 90 * 1 * 1" using mult_mono[OF ab' c(2)] c by simp
  have "a * b * c * d \<le> 90 * 1 * 1 * 1" using mult_mono[OF abc' d(2)] d by simp
  then show "a * b * c * d \<le> 90" by simp
qed

text \<open>
  C8. The accuracy is the bare product of the base, the three factors and one minus the
  penalty, for every input whatever: nothing is applied to the output, and only the penalty
  passes through a \<open>min\<close>. For a parameter sample in the legal domains
  (\<open>0.6 \<le> data_completeness \<le> 1\<close>, \<open>symptom_clarity\<close> in 1..5, \<open>workflow_variation\<close> in
  0..7, \<open>response_time \<ge> 0\<close>) it lies between 9 and 90. The values a call appends to the
  accuracy list are these products of the values drawn, unchanged. In binary64 the two
  extreme samples give the doubles 90 and the one nearest to 9.0396.
\<close>

theorem accuracy_range:
  "accuracy_percent dc sc wv rt =
     90 * dc * (of_int sc / 5) * (1 - of_int wv / 100) * (1 - min (rt / 10) (1 / 10)) \<and>
   (6 / 10 \<le> dc \<and> dc \<le> 1 \<and> 1 \<le> sc \<and> sc \<le> 5 \<and> 0 \<le> wv \<and> wv \<le> 7 \<and> 0 \<le> rt \<longrightarrow>
      9 \<le> accuracy_percent dc sc wv rt \<and> accuracy_percent dc sc wv rt \<le> 90) \<and>
   accuracy (results (snd (simulate_diagnostic_accuracy np g self))) =
     accuracy (results self) @
     map (\<lambda>(dc, sc, wv, rt).
            90 * dc * (of_int sc / 5) * (1 - of_int wv / 100) * (1 - min (rt / 10) (1 / 10)))
         (draws np (n_iterations self) g) \<and>
   accuracy_percent_b64 1 5 0 0 = 90 \<and>
   accuracy_percent_b64 (b64 (6 / 10)) 1 7 1 = b64 (90396 / 10000) \<and>
   9 \<le> b64 (90396 / 10000)"
proof (intro conjI impI)
  show "accuracy_percent dc sc wv rt =
     90 * dc * (of_int sc / 5) * (1 - of_int wv / 100) * (1 - min (rt / 10) (1 / 10))"
    by (rule accuracy_percent_product)
next
  assume h: "6 / 10 \<le> dc \<and> dc \<le> 1 \<and> 1 \<le> sc \<and> sc \<le> 5 \<and> 0 \<le> wv \<and> wv \<le> 7 \<and> 0 \<le> rt"
  have a: "54 \<le> 90 * dc" "90 * dc \<le> 90" using h by auto
  have b: "1 / 5 \<le> (of_int sc :: real) / 5" "(of_int sc :: real) / 5 \<le> 1" using h by auto
  have c: "93 / 100 \<le> 1 - (of_int wv :: real) / 100" "1 - (of_int wv :: real) / 100 \<le> 1"
    using h by auto
  have d: "9 / 10 \<le> 1 - min (rt / 10) (1 / 10)" "1 - min (rt / 10) (1 / 10) \<le> 1"
    using h by auto
  show "9 \<le> accuracy_percent dc sc wv rt" "accuracy_percent dc sc wv rt \<le> 90"
    using accuracy_range_aux[OF a b c d]
    unfolding accuracy_percent_product[of dc sc wv rt] by blast+
next
  have "(\<lambda>(dc, sc, wv, rt). accuracy_percent dc sc wv rt) =
        (\<lambda>(dc :: real, sc :: int, wv :: int, rt :: real).
            90 * dc * (of_int sc / 5) * (1 - of_int wv / 100) * (1 - min (rt / 10) (1 / 10)))"
    by (simp add: accuracy_percent_product fun_eq_iff)
  then show "accuracy (results (snd (simulate_diagnostic_accuracy np g self))) =
     accuracy (results self) @
     map (\<lambda>(dc, sc, wv, rt).
            90 * dc * (of_int sc / 5) * (1 - of_int wv / 100) * (1 - min (rt / 10) (1 / 10)))
         (draws np (n_iterations self) g)"
    by (simp add: simulate_results append_trials_def)
next
  show "accuracy_percent_b64 1 5 0 0 = 90"
    by code_simp
next
  show "accuracy_percent_b64 (b64 (6 / 10)) 1 7 1 = b64 (90396 / 10000)"
    by code_simp
next
  show "9 \<le> b64 (90396 / 10000)"
    by code_simp
qed

text \<open>Witness for C8: a sample inside the domains.\<close>

theorem accuracy_range_witness:
  "(6 / 10 :: real) \<le> 8 / 10 \<and> (8 / 10 :: real) \<le> 1 \<and> (1 :: int) \<le> 3 \<and> (3 :: int) \<le> 5 \<and>
   (0 :: int) \<le> 2 \<and> (2 :: int) \<le> 7 \<and> (0 :: real) \<le> 1 \<and>
   9 \<le> accuracy_percent (8 / 10) 3 2 1 \<and> accuracy_percent (8 / 10) 3 2 1 \<le> 90"
proof -
  have "(6 / 10 :: real) \<le> 8 / 10 \<and> (8 / 10 :: real) \<le> 1 \<and> (1 :: int) \<le> 3 \<and> (3 :: int) \<le> 5 \<and>
        (0 :: int) \<le> 2 \<and> (2 :: int) \<le> 7 \<and> (0 :: real) \<le> 1"
    by simp
  with accuracy_range[of "8 / 10" 3 2 1 counter_random 0 init] show ?thesis
    by blast
qed

subsection \<open>The percentile of the response times\<close>

lemma lerp_eq: "lerp a b t = a + (b - a) * t"
  by (simp add: lerp_def algebra_simps)

lemma np_percentile_single: "np_percentile [x] q = Inr (Num x)"
  by (simp add: np_percentile_def lerp_eq py_index_def Let_def)

lemma np_percentile_99:
  assumes "xs \<noteq> []"
  shows "np_percentile xs 99 =
     Inr (Num (let s = sort xs; rank = 0.99 * (real (length xs) - 1); lo = nat \<lfloor>rank\<rfloor>;
                   hi = min (lo + 1) (length xs - 1)
               in s ! lo + (rank - real lo) * (s ! hi - s ! lo)))"
proof -
  define n where "n = length xs"
  define v :: real where "v = (real n - 1) * (99 / 100)"
  define s where "s = sort xs"
  have n1: "1 \<le> n" using assms by (cases xs) (auto simp: n_def)
  have v_alt: "0.99 * (real (length xs) - 1) = v" by (simp add: v_def n_def)
  have v0: "0 \<le> v" using n1 by (simp add: v_def)
  have fl0: "0 \<le> \<lfloor>v\<rfloor>" using v0 by simp
  have lo_real: "real (nat \<lfloor>v\<rfloor>) = of_int \<lfloor>v\<rfloor>" using fl0 by simp
  have unfolded: "np_percentile xs 99 =
      Inr (Num (lerp (py_index s (if real n - 1 \<le> v then - 1 else \<lfloor>v\<rfloor>))
                     (py_index s (if real n - 1 \<le> v then - 1 else \<lfloor>v\<rfloor> + 1))
                     (v - of_int (if real n - 1 \<le> v then - 1 else \<lfloor>v\<rfloor>))))"
    using assms v0 unfolding np_percentile_def Let_def s_def v_def n_def
    by (simp add: not_less)
  show ?thesis
  proof (cases "n = 1")
    case True
    then have v: "v = 0" by (simp add: v_def)
    have "py_index s (- 1) = s ! 0"
      using True by (simp add: py_index_def s_def n_def)
    then show ?thesis
      unfolding unfolded v_alt Let_def using True v
      by (simp add: lerp_eq s_def[symmetric] n_def[symmetric])
  next
    case False
    with n1 have n2: "2 \<le> n" by simp
    have vlt: "v < real n - 1" using n2 by (simp add: v_def)
    have fllt: "\<lfloor>v\<rfloor> < int n - 1" using vlt by (simp add: floor_less_iff)
    have hi: "min (nat \<lfloor>v\<rfloor> + 1) (n - 1) = nat \<lfloor>v\<rfloor> + 1"
      using fl0 fllt by linarith
    have i1: "py_index s \<lfloor>v\<rfloor> = s ! nat \<lfloor>v\<rfloor>"
      using fl0 by (simp add: py_index_def)
    have i2: "py_index s (\<lfloor>v\<rfloor> + 1) = s ! (nat \<lfloor>v\<rfloor> + 1)"
    proof -
      have "\<not> (\<lfloor>v\<rfloor> + 1 < 0)" using fl0 by linarith
      then have neg: "(\<lfloor>v\<rfloor> + 1 < 0) = False" by blast
      show ?thesis unfolding py_index_def neg using fl0 by (simp add: nat_add_distrib)
    qed
    show ?thesis
      unfolding unfolded v_alt Let_def
      using vlt i1 i2 hi lo_real
      by (simp add: lerp_eq s_def[symmetric] n_def[symmetric] algebra_simps)
  qed
qed

text \<open>
  C9. With at least one trial, the 99th percentile that \<open>calculate_statistics\<close> reports
  is the linear interpolation between order statistics: the response times sorted
  ascending, \<open>rank = 0.99 * (k - 1)\<close>, and the value between the sorted entries at
  \<open>floor rank\<close> and the next one (the last, when there is no next). For the response
  times 1, 2, ..., 10 it is 9.91.
\<close>

theorem percentile_99_interpolates:
  "(response_time (results self) \<noteq> [] \<longrightarrow>
     (\<exists>st. calculate_statistics self = Inr st \<and>
        percentile_99_response st =
          Num (let s = sort (response_time (results self));
                   rank = 0.99 * (real (length (response_time (results self))) - 1);
                   lo = nat \<lfloor>rank\<rfloor>;
                   hi = min (lo + 1) (length (response_time (results self)) - 1)
               in s ! lo + (rank - real lo) * (s ! hi - s ! lo)))) \<and>
   (response_time (results self) = [1, 2, 3, 4, 5, 6, 7, 8, 9, 10] \<longrightarrow>
     (\<exists>st. calculate_statistics self = Inr st \<and>
        percentile_99_response st = Num (991 / 100)))"
proof (intro conjI impI)
  assume ne: "response_time (results self) \<noteq> []"
  show "\<exists>st. calculate_statistics self = Inr st \<and>
        percentile_99_response st =
          Num (let s = sort (response_time (results self));
                   rank = 0.99 * (real (length (response_time (results self))) - 1);
                   lo = nat \<lfloor>rank\<rfloor>;
                   hi = min (lo + 1) (length (response_time (results self)) - 1)
               in s ! lo + (rank - real lo) * (s ! hi - s ! lo))"
    unfolding calculate_statistics_def Let_def np_percentile_99[OF ne, unfolded Let_def]
    by simp
next
  assume ex: "response_time (results self) = [1, 2, 3, 4, 5, 6, 7, 8, 9, 10]"
  have "np_percentile [1, 2, 3, 4, 5, 6, 7, 8, 9, 10] 99 = Inr (Num (991 / 100))"
    by (simp add: np_percentile_def lerp_def py_index_def Let_def)
  then show "\<exists>st. calculate_statistics self = Inr st \<and>
        percentile_99_response st = Num (991 / 100)"
    unfolding calculate_statistics_def Let_def ex by simp
qed

text \<open>Witness for C9: an analysis object holding the ten response times of the example.\<close>

theorem percentile_99_interpolates_witness:
  "\<exists>st. calculate_statistics
          \<lparr>n_iterations = 10,
           results = \<lparr>accuracy = [], response_time = [1, 2, 3, 4, 5, 6, 7, 8, 9, 10],
                      data_completeness = [], symptom_clarity = [],
                      workflow_variation = []\<rparr>\<rparr> = Inr st \<and>
        percentile_99_response st = Num (991 / 100)"
  using percentile_99_interpolates
    [of "\<lparr>n_iterations = 10,
           results = \<lparr>accuracy = [], response_time = [1, 2, 3, 4, 5, 6, 7, 8, 9, 10],
                      data_completeness = [], symptom_clarity = [],
                      workflow_variation = []\<rparr>\<rparr>"]
  by simp

subsection \<open>What several calls append, and what is computed from it\<close>

lemma np_corrcoef_same_length:
  "length xs = length ys \<Longrightarrow> \<exists>c. np_corrcoef xs ys = Inr c"
  by (simp add: np_corrcoef_def)

lemma calculate_statistics_results:
  "calculate_statistics self =
     (case np_percentile (response_time (results self)) 99 of
        Inl e \<Rightarrow> Inl e
      | Inr p \<Rightarrow>
          Inr \<lparr>mean_accuracy = np_mean (accuracy (results self)),
               std_accuracy = np_std 0 (accuracy (results self)),
               ci_95 = norm_interval_95 (np_mean (accuracy (results self)))
                         (stats_sem (accuracy (results self))),
               percentile_99_response = p\<rparr>)"
  by (simp add: calculate_statistics_def Let_def)

lemma sensitivity_analysis_same_lengths:
  assumes "same_lengths (results self)"
  shows "\<exists>c1 c2 c3 c4.
           np_corrcoef (data_completeness (results self)) (accuracy (results self)) = Inr c1 \<and>
           np_corrcoef (map of_int (symptom_clarity (results self))) (accuracy (results self)) = Inr c2 \<and>
           np_corrcoef (map of_int (workflow_variation (results self))) (accuracy (results self)) = Inr c3 \<and>
           np_corrcoef (response_time (results self)) (accuracy (results self)) = Inr c4 \<and>
           sensitivity_analysis self =
             Inr (normalize_percent
                    [(''data_completeness'', c1), (''symptom_clarity'', c2),
                     (''workflow_variation'', c3), (''response_time'', c4)])"
proof -
  obtain c1 where c1: "np_corrcoef (data_completeness (results self)) (accuracy (results self)) = Inr c1"
    using np_corrcoef_same_length[of "data_completeness (results self)" "accuracy (results self)"] assms
    by (auto simp: same_lengths_def)
  obtain c2 where c2: "np_corrcoef (map of_int (symptom_clarity (results self))) (accuracy (results self)) = Inr c2"
    using np_corrcoef_same_length[of "map of_int (symptom_clarity (results self))" "accuracy (results self)"] assms
    by (auto simp: same_lengths_def)
  obtain c3 where c3: "np_corrcoef (map of_int (workflow_variation (results self))) (accuracy (results self)) = Inr c3"
    using np_corrcoef_same_length[of "map of_int (workflow_variation (results self))" "accuracy (results self)"] assms
    by (auto simp: same_lengths_def)
  obtain c4 where c4: "np_corrcoef (response_time (results self)) (accuracy (results self)) = Inr c4"
    using np_corrcoef_same_length[of "response_time (results self)" "accuracy (results self)"] assms
    by (auto simp: same_lengths_def)
  have "sensitivity_analysis self =
             Inr (normalize_percent
                    [(''data_completeness'', c1), (''symptom_clarity'', c2),
                     (''workflow_variation'', c3), (''response_time'', c4)])"
    by (simp add: sensitivity_analysis_def Let_def c1 c2 c3 c4)
  with c1 c2 c3 c4 show ?thesis by blast
qed

text \<open>Claim C10. The five lists are empty at construction, and a call appends one entry to
  each of them per trial: lists of equal length stay of equal length, each list grows by
  \<open>n_iterations\<close> per call, and after \<open>m\<close> calls on a fresh object each has
  \<open>m * n_iterations\<close> entries. A second call does not clear the lists: after it they are
  the lists before the first call followed by the trials of the first run and then those of
  the second. The statistics computed then (mean, standard deviation, confidence interval,
  percentile) and the sensitivity (the four correlations that are normalised) are those of
  these combined lists.\<close>

theorem trial_lists_grow_together:
  "same_lengths (results init) \<and>
   (same_lengths (results self) \<longrightarrow>
      same_lengths (results (snd (simulate_diagnostic_accuracy np g self)))) \<and>
   (let r = results self; r' = results (snd (simulate_diagnostic_accuracy np g self));
        n = n_iterations self
    in length (accuracy r') = length (accuracy r) + n \<and>
       length (response_time r') = length (response_time r) + n \<and>
       length (data_completeness r') = length (data_completeness r) + n \<and>
       length (symptom_clarity r') = length (symptom_clarity r) + n \<and>
       length (workflow_variation r') = length (workflow_variation r) + n) \<and>
   (let r = results (snd (simulate_calls np m g init)); n = n_iterations init
    in length (accuracy r) = m * n \<and>
       length (response_time r) = m * n \<and>
       length (data_completeness r) = m * n \<and>
       length (symptom_clarity r) = m * n \<and>
       length (workflow_variation r) = m * n) \<and>
   (let (g1, self1) = simulate_diagnostic_accuracy np g self;
        (g2, self2) = simulate_diagnostic_accuracy np g1 self1;
        first_run = draws np (n_iterations self) g;
        second_run = draws np (n_iterations self) g1;
        combined = append_trials (results self) (first_run @ second_run)
    in results self1 = append_trials (results self) first_run \<and>
       results self2 = combined \<and>
       length first_run = n_iterations self \<and>
       length second_run = n_iterations self \<and>
       calculate_statistics self2 =
         (case np_percentile (response_time combined) 99 of
            Inl e \<Rightarrow> Inl e
          | Inr p \<Rightarrow>
              Inr \<lparr>mean_accuracy = np_mean (accuracy combined),
                   std_accuracy = np_std 0 (accuracy combined),
                   ci_95 = norm_interval_95 (np_mean (accuracy combined))
                             (stats_sem (accuracy combined)),
                   percentile_99_response = p\<rparr>) \<and>
       (0 < n_iterations self \<longrightarrow>
          (\<exists>p. np_percentile (response_time combined) 99 = Inr p)) \<and>
       (same_lengths (results self) \<longrightarrow>
          (\<exists>c1 c2 c3 c4.
             np_corrcoef (data_completeness combined) (accuracy combined) = Inr c1 \<and>
             np_corrcoef (map of_int (symptom_clarity combined)) (accuracy combined) = Inr c2 \<and>
             np_corrcoef (map of_int (workflow_variation combined)) (accuracy combined) = Inr c3 \<and>
             np_corrcoef (response_time combined) (accuracy combined) = Inr c4 \<and>
             sensitivity_analysis self2 =
               Inr (normalize_percent
                      [(''data_completeness'', c1), (''symptom_clarity'', c2),
                       (''workflow_variation'', c3), (''response_time'', c4)]))))"
proof (intro conjI)
  show "same_lengths (results init)"
    by (simp add: same_lengths_def init_def)
  show "same_lengths (results self) \<longrightarrow>
      same_lengths (results (snd (simulate_diagnostic_accuracy np g self)))"
    by (simp add: simulate_results same_lengths_append_trials)
  show "let r = results self; r' = results (snd (simulate_diagnostic_accuracy np g self));
        n = n_iterations self
    in length (accuracy r') = length (accuracy r) + n \<and>
       length (response_time r') = length (response_time r) + n \<and>
       length (data_completeness r') = length (data_completeness r) + n \<and>
       length (symptom_clarity r') = length (symptom_clarity r) + n \<and>
       length (workflow_variation r') = length (workflow_variation r) + n"
    by (simp add: simulate_results append_trials_def)
  show "let r = results (snd (simulate_calls np m g init)); n = n_iterations init
    in length (accuracy r) = m * n \<and>
       length (response_time r) = m * n \<and>
       length (data_completeness r) = m * n \<and>
       length (symptom_clarity r) = m * n \<and>
       length (workflow_variation r) = m * n"
    using simulate_calls_length[of np m g init]
    by (simp add: init_def)
  show "let (g1, self1) = simulate_diagnostic_accuracy np g self;
        (g2, self2) = simulate_diagnostic_accuracy np g1 self1;
        first_run = draws np (n_iterations self) g;
        second_run = draws np (n_iterations self) g1;
        combined = append_trials (results self) (first_run @ second_run)
    in results self1 = append_trials (results self) first_run \<and>
       results self2 = combined \<and>
       length first_run = n_iterations self \<and>
       length second_run = n_iterations self \<and>
       calculate_statistics self2 =
         (case np_percentile (response_time combined) 99 of
            Inl e \<Rightarrow> Inl e
          | Inr p \<Rightarrow>
              Inr \<lparr>mean_accuracy = np_mean (accuracy combined),
                   std_accuracy = np_std 0 (accuracy combined),
                   ci_95 = norm_interval_95 (np_mean (accuracy combined))
                             (stats_sem (accuracy combined)),
                   percentile_99_response = p\<rparr>) \<and>
       (0 < n_iterations self \<longrightarrow>
          (\<exists>p. np_percentile (response_time combined) 99 = Inr p)) \<and>
       (same_lengths (results self) \<longrightarrow>
          (\<exists>c1 c2 c3 c4.
             np_corrcoef (data_completeness combined) (accuracy combined) = Inr c1 \<and>
             np_corrcoef (map of_int (symptom_clarity combined)) (accuracy combined) = Inr c2 \<and>
             np_corrcoef (map of_int (workflow_variation combined)) (accuracy combined) = Inr c3 \<and>
             np_corrcoef (response_time combined) (accuracy combined) = Inr c4 \<and>
             sensitivity_analysis self2 =
               Inr (normalize_percent
                      [(''data_completeness'', c1), (''symptom_clarity'', c2),
                       (''workflow_variation'', c3), (''response_time'', c4)])))"
  proof -
    obtain g1 self1 where s1: "simulate_diagnostic_accuracy np g self = (g1, self1)"
      by (cases "simulate_diagnostic_accuracy np g self")
    obtain g2 self2 where s2: "simulate_diagnostic_accuracy np g1 self1 = (g2, self2)"
      by (cases "simulate_diagnostic_accuracy np g1 self1")
    define first_run where "first_run = draws np (n_iterations self) g"
    define second_run where "second_run = draws np (n_iterations self) g1"
    define combined where "combined = append_trials (results self) (first_run @ second_run)"
    have n1: "n_iterations self1 = n_iterations self"
      using simulate_n_iterations[of np g self] s1 by simp
    have r1: "results self1 = append_trials (results self) first_run"
      using simulate_results[of np g self] s1 by (simp add: first_run_def)
    have "results self2 = append_trials (results self1) second_run"
      using simulate_results[of np g1 self1] s2 n1 by (simp add: second_run_def)
    then have r2: "results self2 = combined"
      by (simp add: r1 combined_def append_trials_def)
    have l1: "length first_run = n_iterations self"
      by (simp add: first_run_def)
    have l2: "length second_run = n_iterations self"
      by (simp add: second_run_def)
    have st: "calculate_statistics self2 =
         (case np_percentile (response_time combined) 99 of
            Inl e \<Rightarrow> Inl e
          | Inr p \<Rightarrow>
              Inr \<lparr>mean_accuracy = np_mean (accuracy combined),
                   std_accuracy = np_std 0 (accuracy combined),
                   ci_95 = norm_interval_95 (np_mean (accuracy combined))
                             (stats_sem (accuracy combined)),
                   percentile_99_response = p\<rparr>)"
      using calculate_statistics_results[of self2] by (simp only: r2)
    have pc: "\<exists>p. np_percentile (response_time combined) 99 = Inr p"
      if pos: "0 < n_iterations self"
    proof -
      have "first_run \<noteq> []"
        using pos l1 by auto
      then have "response_time combined \<noteq> []"
        by (simp add: combined_def append_trials_def)
      then show ?thesis
        using np_percentile_99 by blast
    qed
    have se: "\<exists>c1 c2 c3 c4.
             np_corrcoef (data_completeness combined) (accuracy combined) = Inr c1 \<and>
             np_corrcoef (map of_int (symptom_clarity combined)) (accuracy combined) = Inr c2 \<and>
             np_corrcoef (map of_int (workflow_variation combined)) (accuracy combined) = Inr c3 \<and>
             np_corrcoef (response_time combined) (accuracy combined) = Inr c4 \<and>
             sensitivity_analysis self2 =
               Inr (normalize_percent
                      [(''data_completeness'', c1), (''symptom_clarity'', c2),
                       (''workflow_variation'', c3), (''response_time'', c4)])"
      if sl: "same_lengths (results self)"
    proof -
      have "same_lengths (results self2)"
        unfolding r2 combined_def using sl by (rule same_lengths_append_trials)
      from sensitivity_analysis_same_lengths[OF this] show ?thesis
        by (simp only: r2)
    qed
    show ?thesis
      using r1 r2 l1 l2 st pc se
      unfolding first_run_def second_run_def combined_def
      by (simp add: s1 s2 Let_def del: length_draws)
  qed
qed

text \<open>Witness for C10: three calls on a fresh object, with the counting generator.\<close>

theorem trial_lists_grow_together_witness:
  "same_lengths (results init) \<and> 0 < n_iterations init \<and>
   same_lengths (results (snd (simulate_diagnostic_accuracy counter_random 0 init))) \<and>
   length (accuracy (results (snd (simulate_calls counter_random 3 0 init)))) = 30000 \<and>
   length (workflow_variation (results (snd (simulate_calls counter_random 3 0 init)))) = 30000"
  using trial_lists_grow_together[of init counter_random 0 3]
  by (simp add: Let_def init_def)

subsection \<open>Reproducibility\<close>

text \<open>Claim C4, as the specification has it: two runs with the same trial count, from the
  same construction, give identical results. The code takes no seed; the draws come from the
  generator's state, and two runs from different states differ. Here the same fresh object
  is run from states 0 and 1 of the counting generator.\<close>

theorem no_seed_counterexample:
  "results (snd (simulate_diagnostic_accuracy counter_random 0 init)) \<noteq>
   results (snd (simulate_diagnostic_accuracy counter_random 1 init))"
proof
  assume "results (snd (simulate_diagnostic_accuracy counter_random 0 init)) =
          results (snd (simulate_diagnostic_accuracy counter_random 1 init))"
  then have "hd (data_completeness (results (snd (simulate_diagnostic_accuracy counter_random 0 init)))) =
             hd (data_completeness (results (snd (simulate_diagnostic_accuracy counter_random 1 init))))"
    by simp
  moreover have "0 < n_iterations init" "data_completeness (results init) = []"
    by (simp_all add: init_def)
  ultimately have "fst (uniform counter_random 0.6 1.0 (0::nat)) = fst (uniform counter_random 0.6 1.0 (1::nat))"
    by (simp add: first_data_completeness)
  then show False
    by (simp add: counter_random_def)
qed

text \<open>Claim C4, amended. The construction takes no seed parameter. The lists after a call
  are the lists before it followed by the trials computed from the values drawn, so two
  runs agree whenever they start from the same lists, have the same trial count and draw
  the same values, whatever the generators and their states are.\<close>

theorem simulation_determined_by_draws:
  "results (snd (simulate_diagnostic_accuracy np g self)) =
     append_trials (results self) (draws np (n_iterations self) g) \<and>
   (results self = results self' \<and> n_iterations self = n_iterations self' \<and>
    draws np (n_iterations self) g = draws np' (n_iterations self') g' \<longrightarrow>
      results (snd (simulate_diagnostic_accuracy np g self)) =
      results (snd (simulate_diagnostic_accuracy np' g' self')))"
proof (intro conjI impI)
  show "results (snd (simulate_diagnostic_accuracy np g self)) =
     append_trials (results self) (draws np (n_iterations self) g)"
    by (rule simulate_results)
next
  assume a: "results self = results self' \<and> n_iterations self = n_iterations self' \<and>
    draws np (n_iterations self) g = draws np' (n_iterations self') g'"
  have "results (snd (simulate_diagnostic_accuracy np g self)) =
          append_trials (results self) (draws np (n_iterations self) g)"
    by (rule simulate_results)
  also have "\<dots> = append_trials (results self') (draws np' (n_iterations self') g')"
    using a by metis
  also have "\<dots> = results (snd (simulate_diagnostic_accuracy np' g' self'))"
    by (rule simulate_results[symmetric])
  finally show "results (snd (simulate_diagnostic_accuracy np g self)) =
      results (snd (simulate_diagnostic_accuracy np' g' self'))" .
qed

theorem simulation_determined_by_draws_witness:
  "draws counter_random (n_iterations two_trials) 0 =
     draws counter_random (n_iterations two_trials) 120 \<and>
   results (snd (simulate_diagnostic_accuracy counter_random 0 two_trials)) =
   results (snd (simulate_diagnostic_accuracy counter_random 120 two_trials))"
proof -
  have d: "draws counter_random (n_iterations two_trials) 0 =
           draws counter_random (n_iterations two_trials) 120"
    by (simp add: two_trials_def counter_random_def numeral_2_eq_2)
  from simulation_determined_by_draws
      [of counter_random 0 two_trials two_trials counter_random 120] d
  have "results (snd (simulate_diagnostic_accuracy counter_random 0 two_trials)) =
        results (snd (simulate_diagnostic_accuracy counter_random 120 two_trials))"
    by blast
  with d show ?thesis
    by blast
qed

subsection \<open>Statistics of an object without trials\<close>

lemma np_percentile_error:
  "np_percentile xs q = Inl e \<Longrightarrow> e = IndexError"
  by (simp add: np_percentile_def Let_def split: if_splits)

text \<open>Claim C2, as the specification has it: with no completed trial the statistics fail
  with \<open>EmptyResultSet\<close>. On a fresh object they do not.\<close>

theorem empty_results_counterexample:
  "calculate_statistics init \<noteq> Inl EmptyResultSet"
  by (simp add: calculate_statistics_def init_def np_percentile_def Let_def)

text \<open>Claim C2, amended. The code has no guard for an object without trials and no error
  kind of its own. With an empty accuracy list the mean, the standard deviation and both
  ends of the confidence interval evaluate to NaN; with an empty list of response times the
  percentile raises numpy's \<open>IndexError\<close>, which ends the call, as on a fresh object. The
  call never fails with \<open>EmptyResultSet\<close>.\<close>

theorem empty_results_index_error:
  "(response_time (results self) = [] \<longrightarrow> calculate_statistics self = Inl IndexError) \<and>
   (accuracy (results self) = [] \<longrightarrow>
      np_mean (accuracy (results self)) = NaN \<and>
      np_std 0 (accuracy (results self)) = NaN \<and>
      norm_interval_95 (np_mean (accuracy (results self))) (stats_sem (accuracy (results self))) =
        (NaN, NaN)) \<and>
   calculate_statistics self \<noteq> Inl EmptyResultSet \<and>
   calculate_statistics init = Inl IndexError"
proof (intro conjI impI)
  assume "response_time (results self) = []"
  then show "calculate_statistics self = Inl IndexError"
    by (simp add: calculate_statistics_def np_percentile_def Let_def)
next
  assume e: "accuracy (results self) = []"
  show "np_mean (accuracy (results self)) = NaN"
    by (simp add: e np_mean_def)
  show "np_std 0 (accuracy (results self)) = NaN"
    by (simp add: e np_std_def np_var_def deviations_def)
  show "norm_interval_95 (np_mean (accuracy (results self))) (stats_sem (accuracy (results self))) =
        (NaN, NaN)"
    by (simp add: e norm_interval_95_def np_mean_def)
next
  show "calculate_statistics self \<noteq> Inl EmptyResultSet"
  proof
    assume a: "calculate_statistics self = Inl EmptyResultSet"
    then have "np_percentile (response_time (results self)) 99 = Inl EmptyResultSet"
      by (simp add: calculate_statistics_def Let_def split: sum.splits)
    then show False
      using np_percentile_error by blast
  qed
next
  show "calculate_statistics init = Inl IndexError"
    by (simp add: calculate_statistics_def init_def np_percentile_def Let_def)
qed

text \<open>Witness for C2: the fresh object.\<close>

theorem empty_results_index_error_witness:
  "response_time (results init) = [] \<and> accuracy (results init) = [] \<and>
   calculate_statistics init = Inl IndexError \<and> np_mean (accuracy (results init)) = NaN \<and>
   np_std 0 (accuracy (results init)) = NaN"
proof -
  have "response_time (results init) = [] \<and> accuracy (results init) = []"
    by (simp add: init_def)
  with empty_results_index_error[of init] show ?thesis
    by blast
qed

subsection \<open>Sensitivity with a factor of zero variance\<close>

lemma nf_add_NaN [simp]: "nf_add a NaN = NaN" "nf_add NaN a = NaN"
  by (cases a; simp)+

lemma nf_div_NaN [simp]: "nf_div a NaN = NaN" "nf_div NaN a = NaN"
  by (cases a; simp)+










subsection \<open>The confidence interval\<close>


lemma np_var_0_nonempty:
  "xs \<noteq> [] \<Longrightarrow> np_var 0 xs = Num ((\<Sum>d\<leftarrow>deviations xs. d * d) / real (length xs))"
  by (simp add: np_var_def)









subsection \<open>The contributions of the sensitivity analysis\<close>

lemma cov_entry_two:
  assumes "2 \<le> length xs"
  shows "cov_entry xs ys =
           Num ((\<Sum>(d, e)\<leftarrow>zip (deviations xs) (deviations ys). d * e) / (real (length xs) - 1))"
proof -
  have "\<not> int (length xs) - 1 \<le> 0" "real (length xs) - 1 \<noteq> 0"
    using assms by auto
  then show ?thesis
    by (simp add: cov_entry_def Let_def)
qed

lemma sum_zip_self: "(\<Sum>(d, e)\<leftarrow>zip ds ds. d * e) = (\<Sum>d\<leftarrow>ds. d * d :: real)"
  by (induction ds) simp_all

lemma positive_var_squares:
  assumes "nf_positive (np_var 0 xs)"
  shows "0 < (\<Sum>d\<leftarrow>deviations xs. d * d)"
proof -
  have ne: "xs \<noteq> []"
    using assms by (auto simp: np_var_def deviations_def)
  then have "0 < (\<Sum>d\<leftarrow>deviations xs. d * d) / real (length xs)"
    using assms by (simp add: np_var_0_nonempty)
  then show ?thesis
    using ne by (simp add: zero_less_divide_iff)
qed

lemma clip_zero_iff: "min (max q (- 1)) 1 = (0::real) \<longleftrightarrow> q = 0"
  by (auto simp: min_def max_def)

lemma np_corrcoef_Num:
  assumes len: "length xs = length ys" and k: "2 \<le> length xs"
    and px: "nf_positive (np_var 0 xs)" and py: "nf_positive (np_var 0 ys)"
  shows "\<exists>c. np_corrcoef xs ys = Inr (Num c) \<and> (c = 0 \<longleftrightarrow> cov_entry xs ys = Num 0)"
proof -
  define n where "n = real (length xs) - 1"
  define sxy where "sxy = (\<Sum>(d, e)\<leftarrow>zip (deviations xs) (deviations ys). d * e)"
  define sxx where "sxx = (\<Sum>d\<leftarrow>deviations xs. d * d)"
  define syy where "syy = (\<Sum>d\<leftarrow>deviations ys. d * d)"
  have n: "0 < n"
    using k by (auto simp: n_def)
  have ky: "2 \<le> length ys"
    using k len by simp
  have ny: "real (length ys) - 1 = n"
    using len by (simp add: n_def)
  have xx: "0 < sxx" and yy: "0 < syy"
    using positive_var_squares[OF px] positive_var_squares[OF py] by (simp_all add: sxx_def syy_def)
  have cxy: "cov_entry xs ys = Num (sxy / n)"
    by (simp add: cov_entry_two[OF k] sxy_def n_def)
  have cxx: "cov_entry xs xs = Num (sxx / n)"
    by (simp add: cov_entry_two[OF k] sum_zip_self sxx_def n_def)
  have cyy: "cov_entry ys ys = Num (syy / n)"
    by (simp add: cov_entry_two[OF ky] sum_zip_self syy_def ny)
  have sx: "nf_sqrt (Num (sxx / n)) = Num (sqrt (sxx / n))" "sqrt (sxx / n) \<noteq> 0"
    using xx n by simp_all
  have sy: "nf_sqrt (Num (syy / n)) = Num (sqrt (syy / n))" "sqrt (syy / n) \<noteq> 0"
    using yy n by simp_all
  have q1: "nf_div (Num (sxy / n)) (Num (sqrt (sxx / n))) = Num (sxy / n / sqrt (sxx / n))"
    using sx(2) by simp
  have q2: "nf_div (Num (sxy / n / sqrt (sxx / n))) (Num (sqrt (syy / n))) =
              Num (sxy / n / sqrt (sxx / n) / sqrt (syy / n))"
    using sy(2) by simp
  have q3: "nf_clip (- 1) 1 (Num (sxy / n / sqrt (sxx / n) / sqrt (syy / n))) =
              Num (min (max (sxy / n / sqrt (sxx / n) / sqrt (syy / n)) (- 1)) 1)"
    by simp
  have "np_corrcoef xs ys =
          Inr (Num (min (max (sxy / n / sqrt (sxx / n) / sqrt (syy / n)) (- 1)) 1))"
    unfolding np_corrcoef_def cxy cxx cyy sx(1) sy(1) q1 q2 q3 using len by simp
  moreover have "sxy / n / sqrt (sxx / n) / sqrt (syy / n) = 0 \<longleftrightarrow> sxy / n = 0"
    using sx(2) sy(2) by simp
  ultimately show ?thesis
    using cxy clip_zero_iff by auto
qed







text \<open>The same happens when the accuracy varies but has covariance zero with every factor:
  the total of the absolute correlations is 0 and every contribution is 0/0.\<close>

lemma uncorrelated_gives_nan:
  "nf_positive (np_var 0 (accuracy (results uncorrelated))) \<and>
   nf_positive (np_var 0 (data_completeness (results uncorrelated))) \<and>
   nf_positive (np_var 0 (map of_int (symptom_clarity (results uncorrelated)))) \<and>
   nf_positive (np_var 0 (map of_int (workflow_variation (results uncorrelated)))) \<and>
   nf_positive (np_var 0 (response_time (results uncorrelated))) \<and>
   sensitivity_analysis uncorrelated =
     Inr [(''data_completeness'', NaN), (''symptom_clarity'', NaN),
          (''workflow_variation'', NaN), (''response_time'', NaN)]"
proof -
  have pa: "nf_positive (np_var 0 (accuracy (results uncorrelated)))"
    by (simp add: uncorrelated_def np_var_def deviations_def)
  have p1: "nf_positive (np_var 0 (data_completeness (results uncorrelated)))"
    by (simp add: uncorrelated_def np_var_def deviations_def)
  have p2: "nf_positive (np_var 0 (map of_int (symptom_clarity (results uncorrelated))))"
    by (simp add: uncorrelated_def np_var_def deviations_def)
  have p3: "nf_positive (np_var 0 (map of_int (workflow_variation (results uncorrelated))))"
    by (simp add: uncorrelated_def np_var_def deviations_def)
  have p4: "nf_positive (np_var 0 (response_time (results uncorrelated)))"
    by (simp add: uncorrelated_def np_var_def deviations_def)
  have z1: "cov_entry (data_completeness (results uncorrelated)) (accuracy (results uncorrelated)) = Num 0"
    by (simp add: uncorrelated_def cov_entry_def deviations_def)
  have z2: "cov_entry (map of_int (symptom_clarity (results uncorrelated))) (accuracy (results uncorrelated)) = Num 0"
    by (simp add: uncorrelated_def cov_entry_def deviations_def)
  have z3: "cov_entry (map of_int (workflow_variation (results uncorrelated))) (accuracy (results uncorrelated)) = Num 0"
    by (simp add: uncorrelated_def cov_entry_def deviations_def)
  have z4: "cov_entry (response_time (results uncorrelated)) (accuracy (results uncorrelated)) = Num 0"
    by (simp add: uncorrelated_def cov_entry_def deviations_def)
  have l: "length (data_completeness (results uncorrelated)) = length (accuracy (results uncorrelated))"
    "length (map of_int (symptom_clarity (results uncorrelated)) :: real list) = length (accuracy (results uncorrelated))"
    "length (map of_int (workflow_variation (results uncorrelated)) :: real list) = length (accuracy (results uncorrelated))"
    "length (response_time (results uncorrelated)) = length (accuracy (results uncorrelated))"
    by (simp_all add: uncorrelated_def)
  have k: "2 \<le> length (data_completeness (results uncorrelated))"
    "2 \<le> length (map of_int (symptom_clarity (results uncorrelated)) :: real list)"
    "2 \<le> length (map of_int (workflow_variation (results uncorrelated)) :: real list)"
    "2 \<le> length (response_time (results uncorrelated))"
    by (simp_all add: uncorrelated_def)
  have c1: "np_corrcoef (data_completeness (results uncorrelated)) (accuracy (results uncorrelated)) = Inr (Num 0)"
    using np_corrcoef_Num[OF l(1) k(1) p1 pa] z1 by auto
  have c2: "np_corrcoef (map of_int (symptom_clarity (results uncorrelated))) (accuracy (results uncorrelated)) = Inr (Num 0)"
    using np_corrcoef_Num[OF l(2) k(2) p2 pa] z2 by auto
  have c3: "np_corrcoef (map of_int (workflow_variation (results uncorrelated))) (accuracy (results uncorrelated)) = Inr (Num 0)"
    using np_corrcoef_Num[OF l(3) k(3) p3 pa] z3 by auto
  have c4: "np_corrcoef (response_time (results uncorrelated)) (accuracy (results uncorrelated)) = Inr (Num 0)"
    using np_corrcoef_Num[OF l(4) k(4) p4 pa] z4 by auto
  have "sensitivity_analysis uncorrelated =
     Inr [(''data_completeness'', NaN), (''symptom_clarity'', NaN),
          (''workflow_variation'', NaN), (''response_time'', NaN)]"
    by (simp add: sensitivity_analysis_def Let_def c1 c2 c3 c4 normalize_percent_def)
  with pa p1 p2 p3 p4 show ?thesis
    by blast
qed



end
